theory Spec2Isabelle
  imports Main
begin

section \<open>The knowledge-base notebook (kb\_bedrock.ipynb)\<close>

text \<open>
  The notebook's own code is three pieces: the retrieval cell (the \<open>retrieve\<close> call and the
  comprehension that extracts (text, score) pairs), the model catalog lookup (the line that
  computes \<open>claude_v2_model_arn\<close>) and the class \<open>ChatUX\<close>. The two SDK clients are external
  objects; they are parameters of the model. Requests and responses have the member names
  of the service's schema, so they are records whose fields are those members; a keyword
  argument that a call leaves out is the value \<open>None\<close> of an optional field.
\<close>

subsection \<open>Exceptions\<close>

text \<open>
  What a call can raise. \<open>Exception\<close>, \<open>IndexError\<close> and \<open>AttributeError\<close> are instances
  of Python's class \<open>Exception\<close>; \<open>KeyboardInterrupt\<close> (the kernel interrupted during the
  call) and \<open>SystemExit\<close> derive from \<open>BaseException\<close> only. The handler
  \<open>except Exception as e\<close> of \<open>chat\<close> names the first class, so \<open>is_Exception\<close> decides
  what it catches. \<open>str_exn e\<close> is \<open>str(e)\<close>, what \<open>print(e)\<close> writes.
\<close>

datatype exn =
    Exception string
  | IndexError string
  | AttributeError string
  | KeyboardInterrupt
  | SystemExit string

fun is_Exception :: "exn \<Rightarrow> bool" where
  "is_Exception (Exception m) = True"
| "is_Exception (IndexError m) = True"
| "is_Exception (AttributeError m) = True"
| "is_Exception KeyboardInterrupt = False"
| "is_Exception (SystemExit m) = False"

fun str_exn :: "exn \<Rightarrow> string" where
  "str_exn (Exception m) = m"
| "str_exn (IndexError m) = m"
| "str_exn (AttributeError m) = m"
| "str_exn KeyboardInterrupt = []"
| "str_exn (SystemExit m) = m"

subsection \<open>Retrieval cell\<close>

record retrieve_request =
  rt_knowledgeBaseId :: string
  rt_text :: string
  rt_numberOfResults :: int

text \<open>The score is a float that the notebook only passes on; its type is left open.\<close>

record 'f retrieval_result =
  content_text :: string
  score :: 'f

record 'f retrieve_response =
  retrievalResults :: "'f retrieval_result list"

type_synonym ('c, 'f) retrieve = "'c \<Rightarrow> retrieve_request \<Rightarrow> exn + 'f retrieve_response"

text \<open>
  \<^verbatim>\<open>[ (x['content']['text'], x['score']) for x in response['retrievalResults'] ]\<close>
\<close>

definition text_score_pairs :: "'f retrieve_response \<Rightarrow> (string \<times> 'f) list" where
  "text_score_pairs response =
     map (\<lambda>x. (content_text x, score x)) (retrievalResults response)"

text \<open>
  The call of the cell, with the knowledge base, the query and the count as arguments
  (the cell has \<open>'Toy Story'\<close> and \<open>3\<close>), followed by the extraction. An exception of the
  call is not handled: it leaves the cell.
\<close>

definition retrieval_wrapper ::
  "('c, 'f) retrieve \<Rightarrow> 'c \<Rightarrow> string \<Rightarrow> string \<Rightarrow> int \<Rightarrow> exn + (string \<times> 'f) list" where
  "retrieval_wrapper retrieve agent_runtime_client knowledgebase query numberOfResults =
     (case retrieve agent_runtime_client
             \<lparr>rt_knowledgeBaseId = knowledgebase, rt_text = query,
              rt_numberOfResults = numberOfResults\<rparr> of
        Inl e \<Rightarrow> Inl e
      | Inr response \<Rightarrow> Inr (text_score_pairs response))"

subsection \<open>Model catalog lookup\<close>

record model_summary =
  ms_modelId :: string
  ms_modelArn :: string

definition modelId :: string where
  "modelId = ''anthropic.claude-v2:1''"

text \<open>
  \<^verbatim>\<open>list(filter(lambda x: x['modelId'] == modelId, ...['modelSummaries']))[0]['modelArn']\<close>:
  element 0 of an empty list is Python's IndexError.
\<close>

definition claude_v2_model_arn_of :: "model_summary list \<Rightarrow> exn + string" where
  "claude_v2_model_arn_of modelSummaries =
     (case filter (\<lambda>x. ms_modelId x = modelId) modelSummaries of
        [] \<Rightarrow> Inl (IndexError ''list index out of range'')
      | x # _ \<Rightarrow> Inr (ms_modelArn x))"

text \<open>The whole line: an exception of \<open>list_foundation_models\<close> itself is not handled either.\<close>

definition lookup_claude_v2_model_arn ::
  "('c \<Rightarrow> exn + model_summary list) \<Rightarrow> 'c \<Rightarrow> exn + string" where
  "lookup_claude_v2_model_arn list_foundation_models bedrock_agent =
     (case list_foundation_models bedrock_agent of
        Inl e \<Rightarrow> Inl e
      | Inr modelSummaries \<Rightarrow> claude_v2_model_arn_of modelSummaries)"

subsection \<open>The retrieve-and-generate call\<close>

text \<open>
  The keyword arguments of \<open>retrieve_and_generate\<close>, nested dictionaries flattened.
  \<open>rq_sessionId = None\<close> is the call written without the keyword \<open>sessionId\<close>.
\<close>

record request =
  rq_sessionId :: "string option"
  rq_text :: string
  rq_type :: string
  rq_knowledgeBaseId :: string
  rq_modelArn :: string

text \<open>The members the loop reads: \<open>response['sessionId']\<close> and \<open>response['output']['text']\<close>.\<close>

record response =
  rs_sessionId :: string
  rs_text :: string

text \<open>
  The client \<open>self.qa\<close> is an object with a state of its own (type \<open>'q\<close>): a call returns
  a response or raises, and leaves the client in a new state.
\<close>

type_synonym 'q rag = "'q \<Rightarrow> request \<Rightarrow> (exn + response) \<times> 'q"

text \<open>The two notebook globals that \<open>chat\<close> reads.\<close>

record globals =
  knowledgebase_id :: string
  claude_v2_model_arn :: string

subsection \<open>Widgets and what is shown\<close>

record text_widget =
  tw_description :: string
  tw_placeholder :: string
  tw_value :: string
  tw_disabled :: bool

record button =
  bt_description :: string
  bt_disabled :: bool

text \<open>
  What a run does to the outside, in order: \<open>Print\<close> is \<open>print\<close> to the cell,
  \<open>Display_Out\<close> is \<open>display(self.out)\<close>; the others happen inside \<open>with self.out\<close>:
  the label \<open>thinking\<close> is displayed and later blanked, text is printed, the old text box and
  button are disabled, a new box is displayed. \<open>Call\<close> is a call of
  \<open>retrieve_and_generate\<close>, with the request sent and what came back.
\<close>

datatype event =
    Print string
  | Display_Out
  | Out_Label string
  | Label_Value string
  | Out_Print string
  | Text_Disabled
  | Button_Disabled
  | Out_Box text_widget button
  | Call request "exn + response"

subsection \<open>ChatUX\<close>

text \<open>
  The fields of the object. \<open>self.out\<close>, the output area, is never assigned after
  \<open>__init__\<close>; what is written to it is the events above.
\<close>

record 'q ChatUX =
  qa :: 'q
  name :: "text_widget option"
  b :: "button option"
  session_id :: "string option"

text \<open>
  One invocation of a method: the object afterwards, what was shown, and the exception
  that left the method, if one did.
\<close>

record 'q turn =
  uncaught :: "exn option"
  after :: "'q ChatUX"
  shown :: "event list"

definition ChatUX_init :: "'q \<Rightarrow> 'q ChatUX" where
  "ChatUX_init q = \<lparr>qa = q, name = None, b = None, session_id = None\<rparr>"

text \<open>Python's truth value of \<open>self.session_id\<close>: \<open>None\<close> and the empty string are false.\<close>

fun truthy :: "string option \<Rightarrow> bool" where
  "truthy None = False"
| "truthy (Some s) = (s \<noteq> [])"

text \<open>
  The \<open>try\<close> statement of \<open>chat\<close>: the call with or without \<open>sessionId\<close>, then the two
  assignments; the handler prints an exception of class \<open>Exception\<close> and sets \<open>result\<close>.
  \<open>Inr\<close> is the statement completed, with \<open>result\<close>; \<open>Inl\<close> is an exception that the
  handler does not name and that leaves the statement. The two calls differ in the keyword
  \<open>sessionId\<close> only; \<open>generation_request\<close> is what they share.
\<close>

definition generation_request :: "globals \<Rightarrow> string option \<Rightarrow> string \<Rightarrow> request" where
  "generation_request g sessionId prompt =
     \<lparr>rq_sessionId = sessionId,
      rq_text = prompt,
      rq_type = ''KNOWLEDGE_BASE'',
      rq_knowledgeBaseId = knowledgebase_id g,
      rq_modelArn = claude_v2_model_arn g\<rparr>"

definition try_retrieve_and_generate ::
  "'q rag \<Rightarrow> globals \<Rightarrow> 'q ChatUX \<Rightarrow> string \<Rightarrow>
     (exn \<times> 'q ChatUX \<times> event list) + (string \<times> 'q ChatUX \<times> event list)" where
  "try_retrieve_and_generate retrieve_and_generate g self prompt =
     (let rq = (if truthy (session_id self)
                then generation_request g (session_id self) prompt
                else generation_request g None prompt);
          r = retrieve_and_generate (qa self) rq
      in case fst r of
           Inl e \<Rightarrow>
             if is_Exception e
             then Inr (''No answer'', self\<lparr>qa := snd r\<rparr>,
                       [Call rq (fst r), Out_Print (str_exn e)])
             else Inl (e, self\<lparr>qa := snd r\<rparr>, [Call rq (fst r)])
         | Inr response \<Rightarrow>
             Inr (rs_text response,
                  self\<lparr>qa := snd r, session_id := Some (rs_sessionId response)\<rparr>,
                  [Call rq (fst r)]))"

definition new_text :: text_widget where
  "new_text = \<lparr>tw_description = ''You: '', tw_placeholder = ''q to quit'',
               tw_value = [], tw_disabled = False\<rparr>"

definition new_button :: button where
  "new_button = \<lparr>bt_description = ''Send'', bt_disabled = False\<rparr>"

text \<open>The last statement of \<open>chat\<close>: \<open>if self.name is None:\<close> make and display a new box.\<close>

definition new_input_box :: "'q ChatUX \<Rightarrow> event list \<Rightarrow> 'q turn" where
  "new_input_box self evs =
     (if name self = None
      then \<lparr>uncaught = None,
            after = self\<lparr>name := Some new_text, b := Some new_button\<rparr>,
            shown = evs @ [Out_Box new_text new_button]\<rparr>
      else \<lparr>uncaught = None, after = self, shown = evs\<rparr>)"

definition no_attribute :: exn where
  "no_attribute = AttributeError (CHR 0x27 # ''NoneType'' @ CHR 0x27 # '' object has no attribute '' @
       CHR 0x27 # ''disabled'' @ [CHR 0x27])"

text \<open>The first statement of \<open>chat\<close>: no text box gives the empty prompt.\<close>

definition prompt_of :: "'q ChatUX \<Rightarrow> string" where
  "prompt_of self = (case name self of None \<Rightarrow> [] | Some w \<Rightarrow> tw_value w)"

text \<open>
  \<open>self.name.disabled = True\<close> and \<open>self.b.disabled = True\<close> raise an AttributeError when
  the field is \<open>None\<close>; nothing handles it there, so it leaves \<open>chat\<close>. So does an exception
  that left the \<open>try\<close> statement: the statements after it in the branch are not run. (Were
  the output area to swallow the exception on leaving \<open>with self.out\<close>, the last statement
  of \<open>chat\<close> would find the text box still there and do nothing: the object and what is
  shown would be the same, only \<open>uncaught\<close> would be \<open>None\<close>.)
\<close>

definition chat :: "'q rag \<Rightarrow> globals \<Rightarrow> 'q ChatUX \<Rightarrow> 'q turn" where
  "chat retrieve_and_generate g self =
     (let prompt = prompt_of self in
      if ''q'' = prompt \<or> ''quit'' = prompt \<or> ''Q'' = prompt then
        \<lparr>uncaught = None, after = self,
         shown = [Print ''Thank you , that was a nice chat !!'']\<rparr>
      else if length prompt > 0 then
        (case try_retrieve_and_generate retrieve_and_generate g self prompt of
           Inl (e, self1, evs) \<Rightarrow>
             \<lparr>uncaught = Some e, after = self1, shown = [Out_Label ''Thinking...''] @ evs\<rparr>
         | Inr (result, self1, evs) \<Rightarrow>
             (let out = [Out_Label ''Thinking...''] @ evs @
                        [Label_Value [], Out_Print (''AI: '' @ result)]
              in case name self1 of
                   None \<Rightarrow> \<lparr>uncaught = Some no_attribute, after = self1, shown = out\<rparr>
                 | Some w \<Rightarrow>
                     (let self2 = self1\<lparr>name := Some (w\<lparr>tw_disabled := True\<rparr>)\<rparr> in
                      case b self2 of
                        None \<Rightarrow> \<lparr>uncaught = Some no_attribute, after = self2,
                                 shown = out @ [Text_Disabled]\<rparr>
                      | Some bt \<Rightarrow>
                          new_input_box
                            (self2\<lparr>b := Some (bt\<lparr>bt_disabled := True\<rparr>), name := None\<rparr>)
                            (out @ [Text_Disabled, Button_Disabled]))))
      else new_input_box self [])"

definition start_chat :: "'q rag \<Rightarrow> globals \<Rightarrow> 'q ChatUX \<Rightarrow> 'q turn" where
  "start_chat retrieve_and_generate g self =
     (let t = chat retrieve_and_generate g self
      in t\<lparr>shown := [Print ''Let's chat!'', Display_Out] @ shown t\<rparr>)"

subsection \<open>The user\<close>

text \<open>
  A turn of the user: type a line into the text box \<open>self.name\<close> and click the button, whose
  handler is \<open>chat\<close>. Without a text box there is nothing to type into and nothing happens.
\<close>

definition send :: "'q rag \<Rightarrow> globals \<Rightarrow> string \<Rightarrow> 'q ChatUX \<Rightarrow> 'q turn" where
  "send retrieve_and_generate g line self =
     (case name self of
        None \<Rightarrow> \<lparr>uncaught = None, after = self, shown = []\<rparr>
      | Some w \<Rightarrow> chat retrieve_and_generate g (self\<lparr>name := Some (w\<lparr>tw_value := line\<rparr>)\<rparr>))"

text \<open>
  Several turns, one line each. The box stays on the screen after a quit line, so the
  turns after it are turns like any other.
\<close>

fun run :: "'q rag \<Rightarrow> globals \<Rightarrow> 'q ChatUX \<Rightarrow> string list \<Rightarrow> 'q ChatUX \<times> event list" where
  "run retrieve_and_generate g self [] = (self, [])"
| "run retrieve_and_generate g self (l # ls) =
     (let t = send retrieve_and_generate g l self;
          r = run retrieve_and_generate g (after t) ls
      in (fst r, shown t @ snd r))"

text \<open>The last cell: \<open>ChatUX(agent_runtime_client).start_chat()\<close>, then the user's lines.\<close>

definition session :: "'q rag \<Rightarrow> globals \<Rightarrow> 'q \<Rightarrow> string list \<Rightarrow> 'q ChatUX \<times> event list" where
  "session retrieve_and_generate g q ls =
     (let t = start_chat retrieve_and_generate g (ChatUX_init q);
          r = run retrieve_and_generate g (after t) ls
      in (fst r, shown t @ snd r))"

subsection \<open>Notions the properties are stated with\<close>

text \<open>The generation calls among the events, in order, as the requests they sent.\<close>

fun calls :: "event list \<Rightarrow> request list" where
  "calls [] = []"
| "calls (Call rq r # es) = rq # calls es"
| "calls (e # es) = calls es"

text \<open>The number of input boxes displayed.\<close>

fun boxes :: "event list \<Rightarrow> nat" where
  "boxes [] = 0"
| "boxes (Out_Box w bt # es) = Suc (boxes es)"
| "boxes (e # es) = boxes es"

text \<open>
  The session identifiers of the responses that generation calls returned, in order:
  a call that raised contributes none.
\<close>

fun returned_sids :: "event list \<Rightarrow> string list" where
  "returned_sids [] = []"
| "returned_sids (Call rq (Inr rs) # es) = rs_sessionId rs # returned_sids es"
| "returned_sids (e # es) = returned_sids es"

text \<open>The session identifier of the most recent response, if there was a response.\<close>

definition last_sid :: "event list \<Rightarrow> string option" where
  "last_sid es = (if returned_sids es = [] then None else Some (last (returned_sids es)))"

text \<open>The \<open>sessionId\<close> keyword that a call made with a stored identifier carries.\<close>

definition session_field :: "string option \<Rightarrow> string option" where
  "session_field sid = (if truthy sid then sid else None)"

text \<open>An input box is there: the text box and its button.\<close>

definition ready :: "'q ChatUX \<Rightarrow> bool" where
  "ready self = (name self \<noteq> None \<and> b self \<noteq> None)"

text \<open>A line that is one of the three quit strings of \<open>chat\<close>, and a line that makes no call.\<close>

definition quit_line :: "string \<Rightarrow> bool" where
  "quit_line l = (''q'' = l \<or> ''quit'' = l \<or> ''Q'' = l)"

definition idle_line :: "string \<Rightarrow> bool" where
  "idle_line l = (quit_line l \<or> l = [])"

text \<open>
  Matching the quit sentinel without regard to case, as the specification words it:
  the line, with its ASCII capitals made small, is \<open>q\<close> or \<open>quit\<close>.
\<close>

definition lower_char :: "char \<Rightarrow> char" where
  "lower_char c =
     (case map_of (zip ''ABCDEFGHIJKLMNOPQRSTUVWXYZ'' ''abcdefghijklmnopqrstuvwxyz'') c of
        None \<Rightarrow> c
      | Some d \<Rightarrow> d)"

definition matches_quit_sentinel :: "string \<Rightarrow> bool" where
  "matches_quit_sentinel l = (map lower_char l = ''q'' \<or> map lower_char l = ''quit'')"

subsection \<open>Stand-ins for the services\<close>

text \<open>
  A retrieve-and-generate client that plays a script: each call takes the next outcome of
  the list, whatever the request; past the end it raises.
\<close>

fun scripted :: "(exn + response) list rag" where
  "scripted [] rq = (Inl (Exception ''script exhausted''), [])"
| "scripted (x # xs) rq = (x, xs)"

definition answer :: "string \<Rightarrow> string \<Rightarrow> exn + response" where
  "answer sid txt = Inr \<lparr>rs_sessionId = sid, rs_text = txt\<rparr>"

definition failure :: "string \<Rightarrow> exn + response" where
  "failure m = Inl (Exception m)"

definition kb :: globals where
  "kb = \<lparr>knowledgebase_id = ''KB12345678'', claude_v2_model_arn = ''arn:claude-v2:1''\<rparr>"

text \<open>A catalog client that lists the given models.\<close>

definition fixed_catalog :: "model_summary list \<Rightarrow> unit \<Rightarrow> exn + model_summary list" where
  "fixed_catalog ms c = Inr ms"

definition titan :: model_summary where
  "titan = \<lparr>ms_modelId = ''amazon.titan-text-express-v1'', ms_modelArn = ''arn:titan''\<rparr>"

definition claude_a :: model_summary where
  "claude_a = \<lparr>ms_modelId = ''anthropic.claude-v2:1'', ms_modelArn = ''arn:claude-a''\<rparr>"

definition claude_b :: model_summary where
  "claude_b = \<lparr>ms_modelId = ''anthropic.claude-v2:1'', ms_modelArn = ''arn:claude-b''\<rparr>"

text \<open>A retrieval service that answers every request with the same four results.\<close>

definition four_pairs :: "(string \<times> nat) list" where
  "four_pairs = [(''Toy Story (1995)'', 91), (''Toy Story 2 (1999)'', 88),
                 (''A Bug's Life (1998)'', 70), (''Monsters, Inc. (2001)'', 65)]"

definition four_results :: "(unit, nat) retrieve" where
  "four_results c rq =
     Inr \<lparr>retrievalResults =
           map (\<lambda>p. \<lparr>content_text = fst p, score = snd p\<rparr>) four_pairs\<rparr>"

section \<open>Properties\<close>

subsection \<open>One invocation of \<open>chat\<close>, case by case\<close>

lemma chat_quit:
  "quit_line (prompt_of self) \<Longrightarrow>
   chat rag g self = \<lparr>uncaught = None, after = self, shown = [Print ''Thank you , that was a nice chat !!'']\<rparr>"
  by (auto simp: chat_def quit_line_def)

lemma chat_empty:
  "prompt_of self = [] \<Longrightarrow> chat rag g self = new_input_box self []"
  by (simp add: chat_def)

lemma request_session_field:
  "(if truthy sid then generation_request g sid p else generation_request g None p) =
   generation_request g (session_field sid) p"
  by (simp add: session_field_def)

lemma chat_raise:
  assumes "name self = Some w" and "b self = Some bt"
    and "\<not> idle_line (tw_value w)"
    and "rag (qa self) (generation_request g (session_field (session_id self)) (tw_value w)) = (Inl e, q')"
    and "is_Exception e"
  shows "chat rag g self =
    \<lparr>uncaught = None,
     after = \<lparr>qa = q', name = Some new_text, b = Some new_button, session_id = session_id self\<rparr>,
     shown = [Out_Label ''Thinking...'',
              Call (generation_request g (session_field (session_id self)) (tw_value w)) (Inl e),
              Out_Print (str_exn e), Label_Value [], Out_Print ''AI: No answer'',
              Text_Disabled, Button_Disabled, Out_Box new_text new_button]\<rparr>"
  using assms
  by (simp add: chat_def prompt_of_def idle_line_def quit_line_def try_retrieve_and_generate_def
      request_session_field new_input_box_def Let_def)

lemma chat_return:
  assumes "name self = Some w" and "b self = Some bt"
    and "\<not> idle_line (tw_value w)"
    and "rag (qa self) (generation_request g (session_field (session_id self)) (tw_value w)) = (Inr rs, q')"
  shows "chat rag g self =
    \<lparr>uncaught = None,
     after = \<lparr>qa = q', name = Some new_text, b = Some new_button,
              session_id = Some (rs_sessionId rs)\<rparr>,
     shown = [Out_Label ''Thinking...'',
              Call (generation_request g (session_field (session_id self)) (tw_value w)) (Inr rs),
              Label_Value [], Out_Print (''AI: '' @ rs_text rs),
              Text_Disabled, Button_Disabled, Out_Box new_text new_button]\<rparr>"
  using assms
  by (simp add: chat_def prompt_of_def idle_line_def quit_line_def try_retrieve_and_generate_def
      request_session_field new_input_box_def Let_def)

lemma calls_append: "calls (xs @ ys) = calls xs @ calls ys"
  by (induction xs rule: calls.induct) simp_all

lemma returned_sids_append: "returned_sids (xs @ ys) = returned_sids xs @ returned_sids ys"
  by (induction xs rule: returned_sids.induct) simp_all

lemma send_chat:
  "name s = Some w \<Longrightarrow> send rag g l s = chat rag g (s\<lparr>name := Some (w\<lparr>tw_value := l\<rparr>)\<rparr>)"
  by (simp add: send_def)

lemma send_idle:
  assumes "name s = Some w" and "idle_line l"
  shows "send rag g l s =
    \<lparr>uncaught = None, after = s\<lparr>name := Some (w\<lparr>tw_value := l\<rparr>)\<rparr>,
     shown = (if l = [] then [] else [Print ''Thank you , that was a nice chat !!''])\<rparr>"
proof (cases "l = []")
  case True
  then show ?thesis using assms(1)
    by (simp add: send_chat chat_empty prompt_of_def new_input_box_def)
next
  case False
  with assms(2) have "quit_line l" by (simp add: idle_line_def)
  then have "quit_line (prompt_of (s\<lparr>name := Some (w\<lparr>tw_value := l\<rparr>)\<rparr>))"
    by (simp add: prompt_of_def)
  from chat_quit[OF this] show ?thesis using assms(1) False
    by (simp add: send_chat)
qed

lemma chat_escape:
  assumes "name self = Some w"
    and "\<not> idle_line (tw_value w)"
    and "rag (qa self) (generation_request g (session_field (session_id self)) (tw_value w)) = (Inl e, q')"
    and "\<not> is_Exception e"
  shows "chat rag g self =
    \<lparr>uncaught = Some e,
     after = self\<lparr>qa := q'\<rparr>,
     shown = [Out_Label ''Thinking...'',
              Call (generation_request g (session_field (session_id self)) (tw_value w)) (Inl e)]\<rparr>"
  using assms
  by (simp add: chat_def prompt_of_def idle_line_def quit_line_def try_retrieve_and_generate_def
      request_session_field Let_def)

lemma send_escape:
  assumes "name s = Some w" and "\<not> idle_line l"
    and "rag (qa s) (generation_request g (session_field (session_id s)) l) = (Inl e, q')"
    and "\<not> is_Exception e"
  shows "send rag g l s =
    \<lparr>uncaught = Some e,
     after = s\<lparr>name := Some (w\<lparr>tw_value := l\<rparr>), qa := q'\<rparr>,
     shown = [Out_Label ''Thinking...'',
              Call (generation_request g (session_field (session_id s)) l) (Inl e)]\<rparr>"
  using assms chat_escape[where self = "s\<lparr>name := Some (w\<lparr>tw_value := l\<rparr>)\<rparr>"
      and w = "w\<lparr>tw_value := l\<rparr>" and rag = rag and g = g and e = e and q' = q']
  by (simp add: send_chat)

lemma send_raise:
  assumes "name s = Some w" and "b s = Some bt" and "\<not> idle_line l"
    and "rag (qa s) (generation_request g (session_field (session_id s)) l) = (Inl e, q')"
    and "is_Exception e"
  shows "send rag g l s =
    \<lparr>uncaught = None,
     after = \<lparr>qa = q', name = Some new_text, b = Some new_button, session_id = session_id s\<rparr>,
     shown = [Out_Label ''Thinking...'',
              Call (generation_request g (session_field (session_id s)) l) (Inl e),
              Out_Print (str_exn e), Label_Value [], Out_Print ''AI: No answer'',
              Text_Disabled, Button_Disabled, Out_Box new_text new_button]\<rparr>"
  using assms chat_raise[where self = "s\<lparr>name := Some (w\<lparr>tw_value := l\<rparr>)\<rparr>"
      and w = "w\<lparr>tw_value := l\<rparr>" and bt = bt and rag = rag and g = g and e = e and q' = q']
  by (simp add: send_chat)

lemma send_return:
  assumes "name s = Some w" and "b s = Some bt" and "\<not> idle_line l"
    and "rag (qa s) (generation_request g (session_field (session_id s)) l) = (Inr rs, q')"
  shows "send rag g l s =
    \<lparr>uncaught = None,
     after = \<lparr>qa = q', name = Some new_text, b = Some new_button,
              session_id = Some (rs_sessionId rs)\<rparr>,
     shown = [Out_Label ''Thinking...'',
              Call (generation_request g (session_field (session_id s)) l) (Inr rs),
              Label_Value [], Out_Print (''AI: '' @ rs_text rs),
              Text_Disabled, Button_Disabled, Out_Box new_text new_button]\<rparr>"
  using assms chat_return[where self = "s\<lparr>name := Some (w\<lparr>tw_value := l\<rparr>)\<rparr>"
      and w = "w\<lparr>tw_value := l\<rparr>" and bt = bt and rag = rag and g = g and rs = rs and q' = q']
  by (simp add: send_chat)

lemma ready_send: "ready s \<Longrightarrow> ready (after (send rag g l s))"
proof -
  assume r: "ready s"
  then obtain w bt where w: "name s = Some w" and bt: "b s = Some bt"
    by (auto simp: ready_def)
  show ?thesis
  proof (cases "idle_line l")
    case True
    from send_idle[OF w True] bt show ?thesis by (simp add: ready_def)
  next
    case False
    obtain r q' where c: "rag (qa s) (generation_request g (session_field (session_id s)) l) = (r, q')"
      by (cases "rag (qa s) (generation_request g (session_field (session_id s)) l)")
    show ?thesis
    proof (cases r)
      case (Inl e)
      show ?thesis
      proof (cases "is_Exception e")
        case True
        with Inl c send_raise[OF w bt False, of rag g e q'] show ?thesis
          by (simp add: ready_def)
      next
        case False
        with Inl c send_escape[OF w \<open>\<not> idle_line l\<close>, of rag g e q'] bt show ?thesis
          by (simp add: ready_def)
      qed
    next
      case (Inr rs)
      with c send_return[OF w bt False, of rag g rs q'] show ?thesis by (simp add: ready_def)
    qed
  qed
qed

lemma ready_run: "ready s \<Longrightarrow> ready (fst (run rag g s ls))"
  by (induction ls arbitrary: s) (simp_all add: Let_def ready_send)

lemma start_chat_init:
  "start_chat rag g (ChatUX_init q) =
     \<lparr>uncaught = None,
      after = \<lparr>qa = q, name = Some new_text, b = Some new_button, session_id = None\<rparr>,
      shown = [Print ''Let's chat!'', Display_Out, Out_Box new_text new_button]\<rparr>"
  by (simp add: start_chat_def chat_def prompt_of_def ChatUX_init_def new_input_box_def)

lemma ready_session: "ready (fst (session rag g q ls))"
proof -
  have "ready (after (start_chat rag g (ChatUX_init q)))"
    by (simp add: start_chat_init ready_def)
  then show ?thesis
    by (simp add: session_def Let_def ready_run)
qed

lemma run_idle:
  assumes "ready s" and "\<forall>l \<in> set ls. idle_line l"
  shows "ready (fst (run rag g s ls)) \<and> qa (fst (run rag g s ls)) = qa s \<and>
         session_id (fst (run rag g s ls)) = session_id s \<and> calls (snd (run rag g s ls)) = []"
  using assms
proof (induction ls arbitrary: s)
  case Nil
  then show ?case by simp
next
  case (Cons l ls)
  from Cons.prems obtain w where w: "name s = Some w" by (auto simp: ready_def)
  from Cons.prems have i: "idle_line l" by simp
  let ?s = "s\<lparr>name := Some (w\<lparr>tw_value := l\<rparr>)\<rparr>"
  have r: "ready ?s" using Cons.prems(1) by (simp add: ready_def)
  from Cons.IH[OF r] Cons.prems(2) send_idle[OF w i, of rag g] show ?case
    by (simp add: Let_def calls_append)
qed

subsection \<open>Where the stored session identifier comes from\<close>

lemma chat_generate_calls:
  assumes "name self = Some w" and "\<not> idle_line (tw_value w)"
  shows "calls (shown (chat rag g self)) =
           [generation_request g (session_field (session_id self)) (tw_value w)]"
  using assms
  by (simp add: chat_def prompt_of_def idle_line_def quit_line_def try_retrieve_and_generate_def
      request_session_field new_input_box_def Let_def calls_append
      split: sum.split option.split if_split)

lemma last_sid_append:
  "last_sid (xs @ ys) = (case last_sid ys of None \<Rightarrow> last_sid xs | Some sid \<Rightarrow> Some sid)"
  by (simp add: last_sid_def returned_sids_append)

lemma chat_sid:
  "session_id (after (chat rag g self)) =
     (case last_sid (shown (chat rag g self)) of None \<Rightarrow> session_id self | Some sid \<Rightarrow> Some sid)"
  by (simp add: chat_def try_retrieve_and_generate_def new_input_box_def Let_def last_sid_def
      returned_sids_append split: sum.split option.split)

lemma send_sid:
  "session_id (after (send rag g l s)) =
     (case last_sid (shown (send rag g l s)) of None \<Rightarrow> session_id s | Some sid \<Rightarrow> Some sid)"
proof (cases "name s")
  case None
  then show ?thesis by (simp add: send_def last_sid_def)
next
  case (Some w)
  with chat_sid[of rag g "s\<lparr>name := Some (w\<lparr>tw_value := l\<rparr>)\<rparr>"] show ?thesis
    by (simp add: send_chat split: option.split)
qed

lemma run_sid:
  "session_id (fst (run rag g s ls)) =
     (case last_sid (snd (run rag g s ls)) of None \<Rightarrow> session_id s | Some sid \<Rightarrow> Some sid)"
proof (induction ls arbitrary: s)
  case Nil
  then show ?case by (simp add: last_sid_def)
next
  case (Cons l ls)
  show ?case
    using Cons.IH[of "after (send rag g l s)"] send_sid[of rag g l s]
    by (simp add: Let_def last_sid_append split: option.split)
qed

lemma session_sid:
  "session_id (fst (session rag g q ls)) = last_sid (snd (session rag g q ls))"
  using run_sid[of rag g "after (start_chat rag g (ChatUX_init q))" ls]
  by (simp add: session_def Let_def last_sid_append start_chat_init last_sid_def split: option.split)

subsection \<open>Turns of a session\<close>

lemma not_idle: "l \<noteq> [] \<Longrightarrow> l \<noteq> ''q'' \<Longrightarrow> l \<noteq> ''quit'' \<Longrightarrow> l \<noteq> ''Q'' \<Longrightarrow> \<not> idle_line l"
  by (auto simp: idle_line_def quit_line_def)

lemma send_generate_calls:
  assumes "ready s" and "\<not> idle_line l"
  shows "calls (shown (send rag g l s)) = [generation_request g (session_field (session_id s)) l]"
proof -
  from assms(1) obtain w where w: "name s = Some w" by (auto simp: ready_def)
  have "calls (shown (chat rag g (s\<lparr>name := Some (w\<lparr>tw_value := l\<rparr>)\<rparr>))) =
          [generation_request g (session_field (session_id (s\<lparr>name := Some (w\<lparr>tw_value := l\<rparr>)\<rparr>)))
             (tw_value (w\<lparr>tw_value := l\<rparr>))]"
    by (rule chat_generate_calls) (simp_all add: assms(2))
  then show ?thesis using w by (simp add: send_chat)
qed

lemma next_call:
  assumes "ready s" and "\<forall>i \<in> set idles. idle_line i" and "\<not> idle_line l"
  shows "calls (shown (send rag g l (fst (run rag g s idles)))) =
           [generation_request g (session_field (session_id s)) l]"
  using run_idle[OF assms(1,2), of rag g]
    send_generate_calls[of "fst (run rag g s idles)" l rag g] assms(3)
  by simp

lemma session_Nil:
  "fst (session rag g q []) =
     \<lparr>qa = q, name = Some new_text, b = Some new_button, session_id = None\<rparr>"
  by (simp add: session_def start_chat_init)

lemma chat_failed_sid:
  assumes "name self = Some w"
    and "rag (qa self) (generation_request g (session_field (session_id self)) (tw_value w)) = (Inl e, q')"
  shows "session_id (after (chat rag g self)) = session_id self"
  using assms
  by (simp add: chat_def prompt_of_def try_retrieve_and_generate_def request_session_field
      new_input_box_def Let_def split: option.split if_split)

lemma send_failed_sid:
  assumes "rag (qa s) (generation_request g (session_field (session_id s)) l) = (Inl e, q')"
  shows "session_id (after (send rag g l s)) = session_id s"
proof (cases "name s")
  case None
  then show ?thesis by (simp add: send_def)
next
  case (Some w)
  have "session_id (after (chat rag g (s\<lparr>name := Some (w\<lparr>tw_value := l\<rparr>)\<rparr>))) =
        session_id (s\<lparr>name := Some (w\<lparr>tw_value := l\<rparr>)\<rparr>)"
    by (rule chat_failed_sid[where w = "w\<lparr>tw_value := l\<rparr>" and e = e and q' = q'])
      (simp_all add: assms)
  then show ?thesis using Some by (simp add: send_chat)
qed

lemma send_idle_sid:
  assumes "idle_line l"
  shows "session_id (after (send rag g l s)) = session_id s"
proof (cases "name s")
  case None
  then show ?thesis by (simp add: send_def)
next
  case (Some w)
  from send_idle[OF Some assms, of rag g] show ?thesis by simp
qed

lemma eval_first_turn:
  "fst (session scripted kb (answer sid txt # rest) [''hi'']) =
     \<lparr>qa = rest, name = Some new_text, b = Some new_button, session_id = Some sid\<rparr>"
  by (simp add: session_def start_chat_init send_def chat_def prompt_of_def
      try_retrieve_and_generate_def new_input_box_def answer_def Let_def)

lemma filter_first_match:
  assumes "\<forall>y \<in> set pre. \<not> P y" and "P x"
  shows "filter P (pre @ x # post) = x # filter P post"
  using assms by (induction pre) simp_all

section \<open>The claims\<close>

subsection \<open>Quit lines\<close>

lemma matches_not_empty: "matches_quit_sentinel l \<Longrightarrow> l \<noteq> []"
  by (auto simp: matches_quit_sentinel_def)

text \<open>
  Against C4 as stated: \<open>QUIT\<close> matches the quit sentinel without regard to case, yet as
  the first line of a session it is sent to the service as a prompt.
\<close>

theorem upper_case_quit_is_sent:
  "matches_quit_sentinel ''QUIT'' \<and>
   calls (shown (send scripted kb ''QUIT'' (fst (session scripted kb [] [])))) =
     [generation_request kb None ''QUIT'']"
  by (simp add: matches_quit_sentinel_def lower_char_def session_def start_chat_init send_def
      chat_generate_calls idle_line_def quit_line_def session_field_def)

text \<open>
  C4, amended. Of the lines that match the quit sentinel without regard to case, exactly
  \<open>q\<close>, \<open>Q\<close> and \<open>quit\<close> end the turn with the farewell and without a generation call;
  every other case variant (\<open>Quit\<close>, \<open>QUIT\<close>, ...) is an ordinary prompt: the turn makes
  one generation call, with the line as its text.
\<close>

theorem quit_strings_exact:
  assumes "matches_quit_sentinel l" and "name self = Some w" and "tw_value w = l"
  shows "(l = ''q'' \<or> l = ''Q'' \<or> l = ''quit'' \<longrightarrow>
            chat rag g self =
              \<lparr>uncaught = None, after = self,
               shown = [Print ''Thank you , that was a nice chat !!'']\<rparr> \<and>
            calls (shown (chat rag g self)) = []) \<and>
         (\<not> (l = ''q'' \<or> l = ''Q'' \<or> l = ''quit'') \<longrightarrow>
            calls (shown (chat rag g self)) =
              [generation_request g (session_field (session_id self)) l])"
proof (cases "quit_line l")
  case True
  then have "quit_line (prompt_of self)" using assms by (simp add: prompt_of_def)
  from chat_quit[OF this] True show ?thesis by (auto simp: quit_line_def)
next
  case False
  with matches_not_empty[OF assms(1)] have "\<not> idle_line (tw_value w)"
    using assms(3) by (simp add: idle_line_def)
  from chat_generate_calls[OF assms(2) this] False assms(3) show ?thesis
    by (auto simp: quit_line_def)
qed

text \<open>The line \<open>Quit\<close>, with a session in progress.\<close>

theorem quit_strings_exact_witness:
  "matches_quit_sentinel ''Quit'' \<and> \<not> (''Quit'' = ''q'' \<or> ''Quit'' = ''Q'' \<or> ''Quit'' = ''quit'') \<and>
   calls (shown (chat scripted kb
     \<lparr>qa = [], name = Some (new_text\<lparr>tw_value := ''Quit''\<rparr>), b = Some new_button,
      session_id = Some ''s-0''\<rparr>)) = [generation_request kb (Some ''s-0'') ''Quit'']"
proof -
  have m: "matches_quit_sentinel ''Quit''"
    by (simp add: matches_quit_sentinel_def lower_char_def)
  show ?thesis
    using m quit_strings_exact[OF m, where w = "new_text\<lparr>tw_value := ''Quit''\<rparr>"
        and rag = scripted and g = kb
        and self = "\<lparr>qa = [], name = Some (new_text\<lparr>tw_value := ''Quit''\<rparr>),
                     b = Some new_button, session_id = Some ''s-0''\<rparr>"]
    by (simp add: session_field_def)
qed

text \<open>
  C5. When the input line (the value of the text box) is exactly \<open>q\<close>, \<open>Q\<close> or \<open>quit\<close>,
  \<open>chat\<close> prints the farewell and returns: the object is unchanged, no generation call is
  made on that turn and no new input box is displayed.
\<close>

theorem quit_line_returns:
  assumes "name self = Some w"
    and "tw_value w = ''q'' \<or> tw_value w = ''Q'' \<or> tw_value w = ''quit''"
  shows "chat rag g self =
           \<lparr>uncaught = None, after = self,
            shown = [Print ''Thank you , that was a nice chat !!'']\<rparr> \<and>
         calls (shown (chat rag g self)) = [] \<and>
         boxes (shown (chat rag g self)) = 0"
proof -
  from assms have "quit_line (prompt_of self)"
    by (auto simp: quit_line_def prompt_of_def)
  from chat_quit[OF this] show ?thesis by simp
qed

text \<open>The line \<open>Q\<close> in the middle of a session.\<close>

theorem quit_line_returns_witness:
  "(''Q'' = ''q'' \<or> ''Q'' = ''Q'' \<or> ''Q'' = ''quit'') \<and>
   chat scripted kb
     \<lparr>qa = [Inr \<lparr>rs_sessionId = ''s-1'', rs_text = ''Hello''\<rparr>],
      name = Some (new_text\<lparr>tw_value := ''Q''\<rparr>), b = Some new_button,
      session_id = Some ''s-0''\<rparr> =
     \<lparr>uncaught = None,
      after = \<lparr>qa = [Inr \<lparr>rs_sessionId = ''s-1'', rs_text = ''Hello''\<rparr>],
               name = Some (new_text\<lparr>tw_value := ''Q''\<rparr>), b = Some new_button,
               session_id = Some ''s-0''\<rparr>,
      shown = [Print ''Thank you , that was a nice chat !!'']\<rparr>"
  using quit_line_returns[where w = "new_text\<lparr>tw_value := ''Q''\<rparr>" and rag = scripted and g = kb
      and self = "\<lparr>qa = [Inr \<lparr>rs_sessionId = ''s-1'', rs_text = ''Hello''\<rparr>],
      name = Some (new_text\<lparr>tw_value := ''Q''\<rparr>), b = Some new_button,
      session_id = Some ''s-0''\<rparr>"]
  by simp

subsection \<open>Empty input\<close>

text \<open>
  Against C6 as stated: the empty line sent from the first input box shows nothing; no
  input box is displayed again.
\<close>

theorem empty_line_no_new_box:
  "shown (send scripted kb [] (fst (session scripted kb [] []))) = [] \<and>
   boxes (shown (send scripted kb [] (fst (session scripted kb [] [])))) = 0"
  by (simp add: session_def start_chat_init send_def chat_def prompt_of_def new_input_box_def)

text \<open>
  C6, amended. On a turn whose prompt is empty, \<open>chat\<close> makes no generation call and leaves
  the stored session identifier and the client as they are. With an input box there it
  does nothing at all: nothing is shown and the object is unchanged, so the box on the
  screen simply stays. Only when there is no text box yet is one displayed.
\<close>

theorem empty_line_does_nothing:
  assumes "prompt_of self = []"
  shows "calls (shown (chat rag g self)) = [] \<and>
         session_id (after (chat rag g self)) = session_id self \<and>
         qa (after (chat rag g self)) = qa self \<and>
         uncaught (chat rag g self) = None \<and>
         (name self \<noteq> None \<longrightarrow>
            chat rag g self = \<lparr>uncaught = None, after = self, shown = []\<rparr>) \<and>
         (name self = None \<longrightarrow>
            shown (chat rag g self) = [Out_Box new_text new_button])"
  using chat_empty[OF assms, of rag g] by (simp add: new_input_box_def)

text \<open>The empty line with a session in progress.\<close>

theorem empty_line_does_nothing_witness:
  "prompt_of \<lparr>qa = [] :: (exn + response) list, name = Some new_text, b = Some new_button,
              session_id = Some ''s-0''\<rparr> = [] \<and>
   chat scripted kb \<lparr>qa = [], name = Some new_text, b = Some new_button, session_id = Some ''s-0''\<rparr> =
     \<lparr>uncaught = None,
      after = \<lparr>qa = [], name = Some new_text, b = Some new_button, session_id = Some ''s-0''\<rparr>,
      shown = []\<rparr>"
proof -
  have h: "prompt_of \<lparr>qa = [] :: (exn + response) list, name = Some new_text, b = Some new_button,
             session_id = Some ''s-0''\<rparr> = []"
    by (simp add: prompt_of_def new_text_def)
  show ?thesis using h empty_line_does_nothing[OF h, of scripted kb] by simp
qed

text \<open>
  C10. \<open>start_chat\<close> on a new object: the absent text box gives the empty prompt, nothing
  is read from it (no exception leaves the method), no generation call is made, and all
  that happens after the greeting and the display of the output area is the display of the
  first input box.
\<close>

theorem start_chat_first_box:
  "prompt_of (ChatUX_init q) = [] \<and>
   start_chat rag g (ChatUX_init q) =
     \<lparr>uncaught = None,
      after = \<lparr>qa = q, name = Some new_text, b = Some new_button, session_id = None\<rparr>,
      shown = [Print ''Let's chat!'', Display_Out, Out_Box new_text new_button]\<rparr> \<and>
   calls (shown (start_chat rag g (ChatUX_init q))) = [] \<and>
   boxes (shown (start_chat rag g (ChatUX_init q))) = 1"
  by (simp add: start_chat_init) (simp add: prompt_of_def ChatUX_init_def)

subsection \<open>The session identifier\<close>

text \<open>
  Against C1 as stated: the service answers the first prompt with the empty string as
  session identifier. The loop stores it, and the next generation call carries no
  \<open>sessionId\<close> at all.
\<close>

theorem empty_session_id_not_sent:
  "returned_sids (snd (session scripted kb [answer [] ''Hello'', answer [] ''Again''] [''hi''])) = [[]] \<and>
   session_id (fst (session scripted kb [answer [] ''Hello'', answer [] ''Again''] [''hi''])) = Some [] \<and>
   map rq_sessionId (calls (shown (send scripted kb ''and then?''
     (fst (session scripted kb [answer [] ''Hello'', answer [] ''Again''] [''hi'']))))) = [None]"
proof -
  have "returned_sids (snd (session scripted kb [answer [] ''Hello'', answer [] ''Again''] [''hi''])) = [[]]"
    by (simp add: session_def start_chat_init send_def chat_def prompt_of_def
      try_retrieve_and_generate_def new_input_box_def answer_def Let_def)
  moreover have "map rq_sessionId (calls (shown (send scripted kb ''and then?''
     \<lparr>qa = [answer [] ''Again''], name = Some new_text, b = Some new_button,
      session_id = Some []\<rparr>))) = [None]"
    by (simp add: send_def chat_generate_calls idle_line_def quit_line_def session_field_def
        generation_request_def)
  ultimately show ?thesis by (simp add: eval_first_turn)
qed

text \<open>
  C1, amended. In a turn of a session that makes a generation call: with no session
  identifier stored, the request has no \<open>sessionId\<close>. When the call returns, the
  identifier of the response is stored, and the next generation call (the turns between
  the two make none: empty lines and quit lines) carries exactly that identifier as its
  \<open>sessionId\<close> if it is not the empty string; an empty identifier is stored but the next
  call leaves \<open>sessionId\<close> out.
\<close>

theorem session_id_passed_on:
  assumes "s = fst (session rag g q ls)"
    and "l \<noteq> []" and "l \<noteq> ''q''" and "l \<noteq> ''quit''" and "l \<noteq> ''Q''"
  shows "(session_id s = None \<longrightarrow> map rq_sessionId (calls (shown (send rag g l s))) = [None]) \<and>
         (\<forall>rs q'. rag (qa s) (generation_request g (session_field (session_id s)) l) = (Inr rs, q') \<longrightarrow>
            session_id (after (send rag g l s)) = Some (rs_sessionId rs) \<and>
            (\<forall>idles l2.
               (\<forall>i \<in> set idles. i = [] \<or> i = ''q'' \<or> i = ''quit'' \<or> i = ''Q'') \<and>
               l2 \<noteq> [] \<and> l2 \<noteq> ''q'' \<and> l2 \<noteq> ''quit'' \<and> l2 \<noteq> ''Q'' \<longrightarrow>
               map rq_sessionId
                 (calls (shown (send rag g l2 (fst (run rag g (after (send rag g l s)) idles))))) =
               [if rs_sessionId rs = [] then None else Some (rs_sessionId rs)]))"
proof (intro conjI allI impI)
  have r: "ready s" using assms(1) by (simp add: ready_session)
  have ni: "\<not> idle_line l" using assms(2-5) by (rule not_idle)
  assume "session_id s = None"
  with send_generate_calls[OF r ni, of rag g]
  show "map rq_sessionId (calls (shown (send rag g l s))) = [None]"
    by (simp add: generation_request_def session_field_def)
next
  fix rs q'
  assume c: "rag (qa s) (generation_request g (session_field (session_id s)) l) = (Inr rs, q')"
  have r: "ready s" using assms(1) by (simp add: ready_session)
  then obtain w bt where w: "name s = Some w" and bt: "b s = Some bt"
    by (auto simp: ready_def)
  have ni: "\<not> idle_line l" using assms(2-5) by (rule not_idle)
  have t: "send rag g l s =
    \<lparr>uncaught = None,
     after = \<lparr>qa = q', name = Some new_text, b = Some new_button,
              session_id = Some (rs_sessionId rs)\<rparr>,
     shown = [Out_Label ''Thinking...'',
              Call (generation_request g (session_field (session_id s)) l) (Inr rs),
              Label_Value [], Out_Print (''AI: '' @ rs_text rs),
              Text_Disabled, Button_Disabled, Out_Box new_text new_button]\<rparr>"
    by (rule send_return[where rag = rag, OF w bt ni c])
  show s1: "session_id (after (send rag g l s)) = Some (rs_sessionId rs)"
    by (simp add: t)
  fix idles l2
  assume a: "(\<forall>i \<in> set idles. i = [] \<or> i = ''q'' \<or> i = ''quit'' \<or> i = ''Q'') \<and>
               l2 \<noteq> [] \<and> l2 \<noteq> ''q'' \<and> l2 \<noteq> ''quit'' \<and> l2 \<noteq> ''Q''"
  then have ni2: "\<not> idle_line l2" by (simp add: not_idle)
  from a have id: "\<forall>i \<in> set idles. idle_line i"
    by (auto simp: idle_line_def quit_line_def)
  have r1: "ready (after (send rag g l s))" using r by (rule ready_send)
  from next_call[OF r1 id ni2, of rag g] s1
  show "map rq_sessionId
          (calls (shown (send rag g l2 (fst (run rag g (after (send rag g l s)) idles))))) =
        [if rs_sessionId rs = [] then None else Some (rs_sessionId rs)]"
    by (simp add: generation_request_def session_field_def)
qed

text \<open>The first two prompts of a session, with an empty line between them.\<close>

theorem session_id_passed_on_witness:
  "session_id (fst (session scripted kb [answer ''s-1'' ''Hello'', answer ''s-1'' ''Again''] [])) = None \<and>
   map rq_sessionId (calls (shown (send scripted kb ''hi''
     (fst (session scripted kb [answer ''s-1'' ''Hello'', answer ''s-1'' ''Again''] []))))) = [None] \<and>
   session_id (after (send scripted kb ''hi''
     (fst (session scripted kb [answer ''s-1'' ''Hello'', answer ''s-1'' ''Again''] [])))) = Some ''s-1'' \<and>
   map rq_sessionId (calls (shown (send scripted kb ''and then?''
     (fst (run scripted kb
        (after (send scripted kb ''hi''
           (fst (session scripted kb [answer ''s-1'' ''Hello'', answer ''s-1'' ''Again''] []))))
        [[]]))))) = [Some ''s-1'']"
proof -
  let ?s = "fst (session scripted kb [answer ''s-1'' ''Hello'', answer ''s-1'' ''Again''] [])"
  have n: "session_id ?s = None" by (simp add: session_Nil)
  have h: "scripted (qa ?s) (generation_request kb (session_field (session_id ?s)) ''hi'') =
             (Inr \<lparr>rs_sessionId = ''s-1'', rs_text = ''Hello''\<rparr>, [answer ''s-1'' ''Again''])"
    by (simp add: session_Nil answer_def)
  have l: "''hi'' \<noteq> []" "''hi'' \<noteq> ''q''" "''hi'' \<noteq> ''quit''" "''hi'' \<noteq> ''Q''"
    by simp_all
  have i: "(\<forall>i \<in> set [[]]. i = [] \<or> i = ''q'' \<or> i = ''quit'' \<or> i = ''Q'') \<and>
      ''and then?'' \<noteq> [] \<and> ''and then?'' \<noteq> ''q'' \<and> ''and then?'' \<noteq> ''quit'' \<and>
      ''and then?'' \<noteq> ''Q''"
    by simp
  note t = session_id_passed_on[where rag = scripted and g = kb, OF refl l]
  from t[THEN conjunct1] n
  have a: "map rq_sessionId (calls (shown (send scripted kb ''hi'' ?s))) = [None]"
    by simp
  note u = t[THEN conjunct2, rule_format, OF h]
  from u[THEN conjunct1]
  have b1: "session_id (after (send scripted kb ''hi'' ?s)) = Some ''s-1''"
    by simp
  from u[THEN conjunct2, rule_format, OF i]
  have c: "map rq_sessionId (calls (shown (send scripted kb ''and then?''
     (fst (run scripted kb (after (send scripted kb ''hi'' ?s)) [[]]))))) = [Some ''s-1'']"
    by simp
  from n a b1 c show ?thesis by simp
qed

text \<open>
  Against C2 as stated: the first response carries the empty string as session
  identifier and the call of the second turn raises. The stored identifier is as it was,
  the empty string, but the next generation call does not include it: it carries no
  \<open>sessionId\<close>.
\<close>

theorem failed_call_then_no_session_field:
  "returned_sids (snd (session scripted kb
      [answer [] ''Hello'', failure ''ThrottlingException'', answer ''s-2'' ''Again''] [''hi''])) =
     [[]] \<and>
   session_id (fst (session scripted kb
      [answer [] ''Hello'', failure ''ThrottlingException'', answer ''s-2'' ''Again''] [''hi''])) =
     Some [] \<and>
   session_id (after (send scripted kb ''and then?''
     (fst (session scripted kb
        [answer [] ''Hello'', failure ''ThrottlingException'', answer ''s-2'' ''Again''] [''hi''])))) =
     Some [] \<and>
   map rq_sessionId (calls (shown (send scripted kb ''once more''
     (after (send scripted kb ''and then?''
        (fst (session scripted kb
           [answer [] ''Hello'', failure ''ThrottlingException'', answer ''s-2'' ''Again'']
           [''hi''])))))))
     = [None]"
proof -
  have a: "returned_sids (snd (session scripted kb
      [answer [] ''Hello'', failure ''ThrottlingException'', answer ''s-2'' ''Again''] [''hi''])) =
     [[]]"
    by (simp add: session_def start_chat_init send_def chat_def prompt_of_def
      try_retrieve_and_generate_def new_input_box_def answer_def Let_def)
  have t: "send scripted kb ''and then?''
      \<lparr>qa = [failure ''ThrottlingException'', answer ''s-2'' ''Again''], name = Some new_text,
       b = Some new_button, session_id = Some []\<rparr> =
      \<lparr>uncaught = None,
       after = \<lparr>qa = [answer ''s-2'' ''Again''], name = Some new_text, b = Some new_button,
                session_id = Some []\<rparr>,
       shown = [Out_Label ''Thinking...'',
                Call (generation_request kb None ''and then?'')
                  (Inl (Exception ''ThrottlingException'')),
                Out_Print ''ThrottlingException'', Label_Value [], Out_Print ''AI: No answer'',
                Text_Disabled, Button_Disabled, Out_Box new_text new_button]\<rparr>"
    by (rule trans[OF send_raise[where w = new_text and bt = new_button
            and e = "Exception ''ThrottlingException''" and q' = "[answer ''s-2'' ''Again'']"]])
       (simp_all add: idle_line_def quit_line_def session_field_def failure_def)
  have c: "map rq_sessionId (calls (shown (send scripted kb ''once more''
      \<lparr>qa = [answer ''s-2'' ''Again''], name = Some new_text, b = Some new_button,
       session_id = Some []\<rparr>))) = [None]"
    by (simp add: send_def chat_generate_calls idle_line_def quit_line_def session_field_def
        generation_request_def)
  from a t c show ?thesis by (simp add: eval_first_turn)
qed

text \<open>
  C2, amended. In a turn of a session whose generation call raises, the stored session
  identifier after the turn is the one before it (it is not cleared). So the next
  generation call, whatever empty and quit lines come before it, sends the session field
  that a call before the failed turn would have sent: the stored identifier, unchanged,
  when it is a non-empty string; no \<open>sessionId\<close> when nothing is stored or the stored
  identifier is the empty string.
\<close>

theorem failed_call_keeps_session:
  assumes "s = fst (session rag g q ls)"
    and "l \<noteq> []" and "l \<noteq> ''q''" and "l \<noteq> ''quit''" and "l \<noteq> ''Q''"
    and "rag (qa s) (generation_request g (session_field (session_id s)) l) = (Inl e, q')"
    and "\<forall>i \<in> set idles. i = [] \<or> i = ''q'' \<or> i = ''quit'' \<or> i = ''Q''"
    and "l2 \<noteq> []" and "l2 \<noteq> ''q''" and "l2 \<noteq> ''quit''" and "l2 \<noteq> ''Q''"
  shows "session_id (after (send rag g l s)) = session_id s \<and>
         calls (shown (send rag g l2 (fst (run rag g (after (send rag g l s)) idles)))) =
           calls (shown (send rag g l2 s)) \<and>
         map rq_sessionId
           (calls (shown (send rag g l2 (fst (run rag g (after (send rag g l s)) idles))))) =
         [case session_id s of
            None \<Rightarrow> None
          | Some sid \<Rightarrow> if sid = [] then None else Some sid]"
proof -
  have r: "ready s" using assms(1) by (simp add: ready_session)
  have ni2: "\<not> idle_line l2" using assms(8-11) by (rule not_idle)
  have id: "\<forall>i \<in> set idles. idle_line i"
    using assms(7) by (auto simp: idle_line_def quit_line_def)
  have s1: "session_id (after (send rag g l s)) = session_id s"
    using assms(6) by (rule send_failed_sid)
  have r1: "ready (after (send rag g l s))"
    using r by (rule ready_send)
  have c: "calls (shown (send rag g l2 (fst (run rag g (after (send rag g l s)) idles)))) =
           [generation_request g (session_field (session_id s)) l2]"
    using next_call[OF r1 id ni2, of rag g] s1 by simp
  have c0: "calls (shown (send rag g l2 s)) =
           [generation_request g (session_field (session_id s)) l2]"
    using r ni2 by (rule send_generate_calls)
  from s1 c c0 show ?thesis
    by (simp add: generation_request_def session_field_def split: option.split)
qed

text \<open>A failed second turn, then an empty line and a quit line, then a third prompt.\<close>

theorem failed_call_keeps_session_witness:
  "session_id (fst (session scripted kb
      [answer ''s-1'' ''Hello'', failure ''ThrottlingException'', answer ''s-1'' ''Again''] [''hi''])) =
     Some ''s-1'' \<and>
   session_id (after (send scripted kb ''and then?''
     (fst (session scripted kb
        [answer ''s-1'' ''Hello'', failure ''ThrottlingException'', answer ''s-1'' ''Again''] [''hi''])))) =
     Some ''s-1'' \<and>
   map rq_sessionId (calls (shown (send scripted kb ''once more''
     (fst (run scripted kb
        (after (send scripted kb ''and then?''
           (fst (session scripted kb
              [answer ''s-1'' ''Hello'', failure ''ThrottlingException'', answer ''s-1'' ''Again'']
              [''hi'']))))
        [[], ''q'']))))) = [Some ''s-1'']"
proof -
  let ?s = "fst (session scripted kb
      [answer ''s-1'' ''Hello'', failure ''ThrottlingException'', answer ''s-1'' ''Again''] [''hi''])"
  have h: "scripted (qa ?s) (generation_request kb (session_field (session_id ?s)) ''and then?'') =
             (Inl (Exception ''ThrottlingException''), [answer ''s-1'' ''Again''])"
    by (simp add: eval_first_turn failure_def)
  have l: "''and then?'' \<noteq> []" "''and then?'' \<noteq> ''q''" "''and then?'' \<noteq> ''quit''"
    "''and then?'' \<noteq> ''Q''"
    by simp_all
  have i: "\<forall>i \<in> set [[], ''q'']. i = [] \<or> i = ''q'' \<or> i = ''quit'' \<or> i = ''Q''"
    by simp
  have l2: "''once more'' \<noteq> []" "''once more'' \<noteq> ''q''" "''once more'' \<noteq> ''quit''"
    "''once more'' \<noteq> ''Q''"
    by simp_all
  note t = failed_call_keeps_session[where rag = scripted and g = kb, OF refl l h i l2]
  have a: "session_id ?s = Some ''s-1''"
    by (simp add: eval_first_turn)
  from t[THEN conjunct1] a
  have c: "session_id (after (send scripted kb ''and then?'' ?s)) = Some ''s-1''"
    by simp
  from t[THEN conjunct2, THEN conjunct2] a
  have d: "map rq_sessionId (calls (shown (send scripted kb ''once more''
     (fst (run scripted kb (after (send scripted kb ''and then?'' ?s)) [[], ''q'']))))) =
     [Some ''s-1'']"
    by simp
  from a c d show ?thesis by simp
qed




text \<open>
  C8. The stored session identifier is \<open>None\<close> on a new object, and after any number of
  turns of a session it is the identifier of the most recent response that a generation
  call returned (\<open>None\<close> when no call has returned). A turn changes it only through a
  response of that turn: a quit line, an empty line and a call that raises leave it as
  it was.
\<close>

theorem stored_session_id_invariant:
  "session_id (ChatUX_init q) = None \<and>
   session_id (fst (session rag g q ls)) = last_sid (snd (session rag g q ls)) \<and>
   session_id (after (send rag g l s)) =
     (case last_sid (shown (send rag g l s)) of None \<Rightarrow> session_id s | Some sid \<Rightarrow> Some sid) \<and>
   (l = [] \<or> l = ''q'' \<or> l = ''quit'' \<or> l = ''Q'' \<longrightarrow>
      session_id (after (send rag g l s)) = session_id s) \<and>
   (\<forall>e q'. rag (qa s) (generation_request g (session_field (session_id s)) l) = (Inl e, q') \<longrightarrow>
      session_id (after (send rag g l s)) = session_id s)"
proof (intro conjI allI impI)
  show "session_id (ChatUX_init q) = None" by (simp add: ChatUX_init_def)
  show "session_id (fst (session rag g q ls)) = last_sid (snd (session rag g q ls))"
    by (rule session_sid)
  show "session_id (after (send rag g l s)) =
     (case last_sid (shown (send rag g l s)) of None \<Rightarrow> session_id s | Some sid \<Rightarrow> Some sid)"
    by (rule send_sid)
next
  assume "l = [] \<or> l = ''q'' \<or> l = ''quit'' \<or> l = ''Q''"
  then have "idle_line l" by (auto simp: idle_line_def quit_line_def)
  then show "session_id (after (send rag g l s)) = session_id s" by (rule send_idle_sid)
next
  fix e q'
  assume "rag (qa s) (generation_request g (session_field (session_id s)) l) = (Inl e, q')"
  then show "session_id (after (send rag g l s)) = session_id s" by (rule send_failed_sid)
qed

text \<open>Five turns: a prompt, an empty line, a failed call, a quit line, a prompt.\<close>

theorem stored_session_id_invariant_witness:
  "session_id (fst (session scripted kb
      [answer ''s-1'' ''Hello'', failure ''ThrottlingException'', answer ''s-2'' ''Again'']
      [''hi'', [], ''and then?'', ''q'', ''once more''])) = Some ''s-2'' \<and>
   last_sid (snd (session scripted kb
      [answer ''s-1'' ''Hello'', failure ''ThrottlingException'', answer ''s-2'' ''Again'']
      [''hi'', [], ''and then?'', ''q'', ''once more''])) = Some ''s-2'' \<and>
   session_id (after (send scripted kb ''q''
     \<lparr>qa = [], name = Some new_text, b = Some new_button, session_id = Some ''s-2''\<rparr>)) =
     Some ''s-2''"
proof -
  have e: "last_sid (snd (session scripted kb
      [answer ''s-1'' ''Hello'', failure ''ThrottlingException'', answer ''s-2'' ''Again'']
      [''hi'', [], ''and then?'', ''q'', ''once more''])) = Some ''s-2''"
    by (simp add: session_def start_chat_init send_def chat_def prompt_of_def
      try_retrieve_and_generate_def new_input_box_def answer_def failure_def Let_def last_sid_def
      new_text_def)
  note t = stored_session_id_invariant[where rag = scripted and g = kb
      and q = "[answer ''s-1'' ''Hello'', failure ''ThrottlingException'', answer ''s-2'' ''Again'']"
      and ls = "[''hi'', [], ''and then?'', ''q'', ''once more'']" and l = "''q''"
      and s = "\<lparr>qa = [], name = Some new_text, b = Some new_button, session_id = Some ''s-2''\<rparr>"]
  from t[THEN conjunct2, THEN conjunct1] e
  have a: "session_id (fst (session scripted kb
      [answer ''s-1'' ''Hello'', failure ''ThrottlingException'', answer ''s-2'' ''Again'']
      [''hi'', [], ''and then?'', ''q'', ''once more''])) = Some ''s-2''"
    by simp
  from t[THEN conjunct2, THEN conjunct2, THEN conjunct2, THEN conjunct1]
  have c: "session_id (after (send scripted kb ''q''
     \<lparr>qa = [], name = Some new_text, b = Some new_button, session_id = Some ''s-2''\<rparr>)) =
     Some ''s-2''"
    by simp
  from a e c show ?thesis by simp
qed

subsection \<open>Retrieval and the model catalog\<close>

text \<open>
  Against C7 as stated: asked for three results, a service that supplies four gets all
  four passed on.
\<close>

theorem four_results_for_three:
  "retrieval_wrapper four_results () ''KB12345678'' ''Toy Story'' 3 = Inr four_pairs \<and>
   length four_pairs = 4"
  by (simp add: retrieval_wrapper_def four_results_def text_score_pairs_def four_pairs_def)

text \<open>
  C7, amended. When the retrieve call returns, the retrieval wrapper returns one
  (text, score) pair for each result the service supplied, in the service's order:
  nothing is reordered, removed or cut off locally. So it returns as many results as
  the service supplied, which is at most the requested count exactly when the service
  kept to the count.
\<close>

theorem retrieval_wrapper_passes_on:
  assumes "retrieve client \<lparr>rt_knowledgeBaseId = k, rt_text = query,
                            rt_numberOfResults = count\<rparr> = Inr response"
  shows "retrieval_wrapper retrieve client k query count = Inr (text_score_pairs response) \<and>
         length (text_score_pairs response) = length (retrievalResults response) \<and>
         (\<forall>i < length (retrievalResults response).
            text_score_pairs response ! i =
              (content_text (retrievalResults response ! i),
               score (retrievalResults response ! i))) \<and>
         (int (length (retrievalResults response)) \<le> count \<longrightarrow>
            int (length (text_score_pairs response)) \<le> count)"
  using assms by (simp add: retrieval_wrapper_def text_score_pairs_def)

text \<open>A request for five results that the service answers with four.\<close>

theorem retrieval_wrapper_passes_on_witness:
  "four_results () \<lparr>rt_knowledgeBaseId = ''KB12345678'', rt_text = ''Toy Story'',
                     rt_numberOfResults = 5\<rparr> =
     Inr \<lparr>retrievalResults = map (\<lambda>p. \<lparr>content_text = fst p, score = snd p\<rparr>) four_pairs\<rparr> \<and>
   retrieval_wrapper four_results () ''KB12345678'' ''Toy Story'' 5 = Inr four_pairs \<and>
   int (length four_pairs) \<le> 5"
proof -
  have h: "four_results () \<lparr>rt_knowledgeBaseId = ''KB12345678'', rt_text = ''Toy Story'',
                             rt_numberOfResults = 5\<rparr> =
     Inr \<lparr>retrievalResults = map (\<lambda>p. \<lparr>content_text = fst p, score = snd p\<rparr>) four_pairs\<rparr>"
    by (simp add: four_results_def)
  show ?thesis using h retrieval_wrapper_passes_on[where retrieve = four_results and client = "()", OF h]
    by (simp add: text_score_pairs_def four_pairs_def)
qed

text \<open>
  C9. With the catalog returned by \<open>list_foundation_models\<close>: if no entry has the modelId
  \<open>anthropic.claude-v2:1\<close>, the lookup raises the IndexError of element 0 of an empty list;
  otherwise it returns the modelArn of the first entry with that modelId.
\<close>

theorem catalog_lookup:
  assumes "list_foundation_models bedrock_agent = Inr ms"
  shows "((\<forall>x \<in> set ms. ms_modelId x \<noteq> ''anthropic.claude-v2:1'') \<longrightarrow>
            lookup_claude_v2_model_arn list_foundation_models bedrock_agent =
              Inl (IndexError ''list index out of range'')) \<and>
         (\<forall>pre x post.
            ms = pre @ x # post \<and>
            (\<forall>y \<in> set pre. ms_modelId y \<noteq> ''anthropic.claude-v2:1'') \<and>
            ms_modelId x = ''anthropic.claude-v2:1'' \<longrightarrow>
            lookup_claude_v2_model_arn list_foundation_models bedrock_agent =
              Inr (ms_modelArn x))"
proof (intro conjI allI impI)
  assume "\<forall>x \<in> set ms. ms_modelId x \<noteq> ''anthropic.claude-v2:1''"
  then have "filter (\<lambda>x. ms_modelId x = modelId) ms = []"
    by (simp add: modelId_def filter_empty_conv)
  then show "lookup_claude_v2_model_arn list_foundation_models bedrock_agent =
      Inl (IndexError ''list index out of range'')"
    using assms by (simp add: lookup_claude_v2_model_arn_def claude_v2_model_arn_of_def)
next
  fix pre x post
  assume a: "ms = pre @ x # post \<and>
            (\<forall>y \<in> set pre. ms_modelId y \<noteq> ''anthropic.claude-v2:1'') \<and>
            ms_modelId x = ''anthropic.claude-v2:1''"
  then have "filter (\<lambda>x. ms_modelId x = modelId) ms =
      x # filter (\<lambda>x. ms_modelId x = modelId) post"
    using filter_first_match[of pre "\<lambda>x. ms_modelId x = modelId" x post]
    by (simp add: modelId_def)
  then show "lookup_claude_v2_model_arn list_foundation_models bedrock_agent = Inr (ms_modelArn x)"
    using assms by (simp add: lookup_claude_v2_model_arn_def claude_v2_model_arn_of_def)
qed

text \<open>A catalog without the model, and one that lists it twice.\<close>

theorem catalog_lookup_witness:
  "fixed_catalog [titan] () = Inr [titan] \<and>
   ms_modelId titan \<noteq> ''anthropic.claude-v2:1'' \<and>
   lookup_claude_v2_model_arn (fixed_catalog [titan]) () =
     Inl (IndexError ''list index out of range'') \<and>
   fixed_catalog [titan, claude_a, claude_b] () = Inr [titan, claude_a, claude_b] \<and>
   lookup_claude_v2_model_arn (fixed_catalog [titan, claude_a, claude_b]) () = Inr ''arn:claude-a''"
proof -
  have h1: "fixed_catalog [titan] () = Inr [titan]"
    by (simp add: fixed_catalog_def)
  have n1: "\<forall>x \<in> set [titan]. ms_modelId x \<noteq> ''anthropic.claude-v2:1''"
    by (simp add: titan_def)
  have h2: "fixed_catalog [titan, claude_a, claude_b] () = Inr [titan, claude_a, claude_b]"
    by (simp add: fixed_catalog_def)
  have d2: "[titan, claude_a, claude_b] = [titan] @ claude_a # [claude_b] \<and>
            (\<forall>y \<in> set [titan]. ms_modelId y \<noteq> ''anthropic.claude-v2:1'') \<and>
            ms_modelId claude_a = ''anthropic.claude-v2:1''"
    by (simp add: titan_def claude_a_def)
  from catalog_lookup[where list_foundation_models = "fixed_catalog [titan]"
      and bedrock_agent = "()", OF h1] n1
  have r1: "lookup_claude_v2_model_arn (fixed_catalog [titan]) () =
              Inl (IndexError ''list index out of range'')"
    by blast
  from catalog_lookup[where list_foundation_models = "fixed_catalog [titan, claude_a, claude_b]"
      and bedrock_agent = "()", OF h2] d2
  have r2: "lookup_claude_v2_model_arn (fixed_catalog [titan, claude_a, claude_b]) () =
              Inr (ms_modelArn claude_a)"
    by blast
  from h1 n1 r1 h2 r2 show ?thesis by (simp add: claude_a_def)
qed

end
